theory Spec2Isabelle
  imports Complex_Main "HOL-Library.Sublist"
begin

section \<open>Data model\<close>

text \<open>
  JavaScript numbers are modelled as reals: the arithmetic of the program is taken
  exactly, without the rounding of IEEE doubles.  The value \<open>NaN\<close>, which the
  program uses as the marker of an indicator that is not ready, is \<open>None\<close> of an
  option type.  Timestamps are integers (milliseconds).
\<close>

datatype side = LONG | SHORT

datatype sig_status = OPEN | PENDING | TP | SL | EXPIRED

text \<open>The candle objects built by \<open>loadCandles\<close>: \<open>{ t, open, high, low, close, vol }\<close>.\<close>

record candle =
  t :: int
  c_open :: real
  high :: real
  low :: real
  close :: real
  vol :: real

text \<open>One entry of \<open>monitorHistory\<close>; \<open>resultStatus\<close> is \<open>None\<close> for \<open>null\<close>.\<close>

record history_entry =
  checkedAt :: int
  resultStatus :: "sig_status option"

text \<open>
  The signal objects of \<open>registerSignal\<close> in index.js.  \<open>createdAt\<close> and
  \<open>resolvedAt\<close> are held as epoch milliseconds (the program stores ISO strings and
  reads them back with \<open>new Date(...).getTime()\<close>); \<open>monitorInterval\<close> tells whether
  the timer handle \<open>_monitorInterval\<close> is set.
\<close>

record signal =
  sig_symbol :: string
  sig_side :: side
  sig_entry :: real
  sig_sl :: real
  sig_tp :: real
  sig_rr :: "real option"
  sig_confidence :: int
  createdAt :: int
  status :: sig_status
  resolvedAt :: "int option"
  monitorChecks :: nat
  monitorHistory :: "history_entry list"
  monitorInterval :: bool

section \<open>Candle source adapter (analysis.js, loadCandles)\<close>

record source =
  name :: string
  priority :: int

definition DATA_SOURCES :: "source list" where
  "DATA_SOURCES =
     [\<lparr>name = ''Binance Main'', priority = 1\<rparr>,
      \<lparr>name = ''Binance Futures (fapi) fallback'', priority = 2\<rparr>,
      \<lparr>name = ''Bybit Backup'', priority = 3\<rparr>]"

text \<open>
  Wire records.  An array-encoded record is \<open>[t, open, high, low, close, vol, ...]\<close>;
  position 5 may be missing or falsy (\<open>item[5] || 0\<close>).  An object-encoded record has
  optional keys \<open>t\<close>/\<open>start\<close>, \<open>o\<close>/\<open>open\<close>, \<open>h\<close>/\<open>high\<close>, \<open>l\<close>/\<open>low\<close>,
  \<open>c\<close>/\<open>close\<close>, \<open>v\<close>/\<open>volume\<close>.  The values are taken as already numeric, so
  \<open>parseInt\<close> and \<open>parseFloat\<close> are the identity on them, and a value is falsy when it
  is absent or zero.
\<close>

record array_item =
  a_t :: int
  a_open :: real
  a_high :: real
  a_low :: real
  a_close :: real
  a_vol :: "real option"

record object_item =
  o_t :: "int option"
  o_start :: "int option"
  o_o :: "real option"
  o_open :: "real option"
  o_h :: "real option"
  o_high :: "real option"
  o_l :: "real option"
  o_low :: "real option"
  o_c :: "real option"
  o_close :: "real option"
  o_v :: "real option"
  o_volume :: "real option"

datatype wire_item = ArrayItem array_item | ObjectItem object_item

text \<open>
  The body \<open>res.data\<close>: an array of records, an object \<open>{result: {list, data}}\<close> (each
  of the two keys absent or holding an array), or anything else.
\<close>

datatype raw =
    RawArray "wire_item list"
  | RawResult "wire_item list option" "wire_item list option"
  | RawOther

text \<open>
  What \<open>axios.get\<close> does for one source: it throws (timeout, network error, rate
  limit), or it answers with a status and a body; \<open>None\<close> is a falsy body.
\<close>

datatype response = Threw | Resp nat "raw option"

text \<open>The network: the answer to the request for (symbol, interval, limit) at a source.\<close>

type_synonym net = "string \<Rightarrow> string \<Rightarrow> nat \<Rightarrow> source \<Rightarrow> response"

text \<open>\<open>x || y\<close> on optional numbers: the first operand when it is truthy.\<close>

definition js_or :: "('a::zero) option \<Rightarrow> 'a option \<Rightarrow> 'a option" where
  "js_or x y = (case x of Some v \<Rightarrow> (if v = 0 then y else Some v) | None \<Rightarrow> y)"

text \<open>\<open>x || 0\<close>\<close>

definition js_or0 :: "('a::zero) option \<Rightarrow> 'a" where
  "js_or0 x = (case x of Some v \<Rightarrow> v | None \<Rightarrow> 0)"

text \<open>\<open>s.includes(sub)\<close>\<close>

fun str_includes :: "string \<Rightarrow> string \<Rightarrow> bool" where
  "str_includes [] sub = (sub = [])"
| "str_includes (ch # s) sub = (prefix sub (ch # s) \<or> str_includes s sub)"

definition array_candle :: "array_item \<Rightarrow> candle" where
  "array_candle item =
     \<lparr>t = a_t item, c_open = a_open item, high = a_high item, low = a_low item,
      close = a_close item, vol = js_or0 (a_vol item)\<rparr>"

definition object_candle :: "object_item \<Rightarrow> candle" where
  "object_candle item =
     \<lparr>t = js_or0 (js_or (o_t item) (o_start item)),
      c_open = js_or0 (js_or (o_o item) (o_open item)),
      high = js_or0 (js_or (o_h item) (o_high item)),
      low = js_or0 (js_or (o_l item) (o_low item)),
      close = js_or0 (js_or (o_c item) (o_close item)),
      vol = js_or0 (js_or (o_v item) (o_volume item))\<rparr>"

text \<open>The mapping of the Bybit branch: \<open>Array.isArray(item)\<close> or an object with keys.\<close>

fun bybit_candle :: "wire_item \<Rightarrow> candle" where
  "bybit_candle (ArrayItem item) = array_candle item"
| "bybit_candle (ObjectItem item) = object_candle item"

fun is_array_item :: "wire_item \<Rightarrow> bool" where
  "is_array_item (ArrayItem item) = True"
| "is_array_item (ObjectItem item) = False"

text \<open>
  The mapping of the Binance branch, which reads the positions 0 to 5 of every record.
  On a record that is not an array they are \<open>undefined\<close>, and the candle has the time
  and the prices \<open>NaN\<close>: the candle type does not hold it, and it is \<open>None\<close>.
\<close>

fun binance_candle :: "wire_item \<Rightarrow> candle option" where
  "binance_candle (ArrayItem item) = Some (array_candle item)"
| "binance_candle (ObjectItem item) = None"

text \<open>
  The outcome of the normalisation of one body: the code throws, or it builds the
  candles, or it builds candles some of which are of \<open>NaN\<close>.
\<close>

datatype normalized = Throws | Candles "candle list" | NaNCandles "candle option list"

text \<open>
  \<open>list = raw?.result?.list || raw?.result?.data || raw\<close> of the Bybit branch.  When
  neither key holds an array, \<open>list\<close> is the body itself, and \<open>list.map\<close> throws
  unless the body is an array: that is \<open>None\<close>.
\<close>

definition bybit_list :: "raw \<Rightarrow> wire_item list option" where
  "bybit_list body =
     (case body of
        RawArray items \<Rightarrow> Some items
      | RawResult lst dat \<Rightarrow> (case lst of Some items \<Rightarrow> Some items | None \<Rightarrow> dat)
      | RawOther \<Rightarrow> None)"

text \<open>
  Bybit branch: the list is mapped and then sorted with \<open>(a, b) => a.t - b.t\<close> (the
  sort of JavaScript is stable).  Binance branch: the body must be an array; it is
  mapped in the order of the wire and not sorted.
\<close>

definition normalize :: "source \<Rightarrow> raw \<Rightarrow> normalized" where
  "normalize src body =
     (if str_includes (name src) ''Bybit''
      then (case bybit_list body of
              None \<Rightarrow> Throws
            | Some items \<Rightarrow> Candles (sort_key t (map bybit_candle items)))
      else (case body of
              RawArray items \<Rightarrow>
                (if list_all is_array_item items
                 then Candles (map (the \<circ> binance_candle) items)
                 else NaNCandles (map binance_candle items))
            | RawResult lst dat \<Rightarrow> Throws
            | RawOther \<Rightarrow> Throws))"

text \<open>
  \<open>loadCandles\<close> throws when all sources failed.  The candles with \<open>NaN\<close> that it
  may return are kept apart from the candles of numbers, as \<open>NotANumber\<close>.
\<close>

datatype error = AllSourcesFailed | NotANumber "candle option list"

text \<open>
  The loop over the sources: a source that throws, answers with a status other than
  200, a falsy body or no candle is skipped; the first source with candles decides.
  The \<open>limit\<close> is sent to the source and not used otherwise.
\<close>

fun try_sources :: "(source \<Rightarrow> response) \<Rightarrow> source list \<Rightarrow> error + candle list" where
  "try_sources fetch [] = Inl AllSourcesFailed"
| "try_sources fetch (src # sources) =
     (case fetch src of
        Threw \<Rightarrow> try_sources fetch sources
      | Resp st body \<Rightarrow>
          (if st \<noteq> 200 \<or> body = None then try_sources fetch sources
           else (case normalize src (the body) of
                   Throws \<Rightarrow> try_sources fetch sources
                 | NaNCandles candles \<Rightarrow> Inl (NotANumber candles)
                 | Candles candles \<Rightarrow>
                     (if length candles = 0 then try_sources fetch sources
                      else Inr candles))))"

definition loadCandles :: "net \<Rightarrow> string \<Rightarrow> string \<Rightarrow> nat \<Rightarrow> error + candle list" where
  "loadCandles nt symb interval limit =
     try_sources (nt symb interval limit) (sort_key priority DATA_SOURCES)"

section \<open>Indicator engine (analysis.js)\<close>

definition RSI_LENGTH :: nat where "RSI_LENGTH = 14"
definition BB_LENGTH :: nat where "BB_LENGTH = 20"
definition BB_STD :: real where "BB_STD = 2"
definition V_SMA :: nat where "V_SMA = 3"
definition ATR_LENGTH :: nat where "ATR_LENGTH = 14"

subsection \<open>rsiFromCloses\<close>

text \<open>\<open>for (i = 1; i < closes.length; i++) deltas.push(closes[i] - closes[i - 1])\<close>\<close>

fun deltas_of :: "real list \<Rightarrow> real list" where
  "deltas_of (prev # cur # rest) = (cur - prev) # deltas_of (cur # rest)"
| "deltas_of [prev] = []"
| "deltas_of [] = []"

text \<open>The seeding loop over the first \<open>length\<close> deltas.\<close>

fun rsi_seed :: "real list \<Rightarrow> real \<Rightarrow> real \<Rightarrow> real \<times> real" where
  "rsi_seed [] gains losses = (gains, losses)"
| "rsi_seed (d # ds) gains losses =
     (if d > 0 then rsi_seed ds (gains + d) losses
      else rsi_seed ds gains (losses + \<bar>d\<bar>))"

text \<open>\<open>rs = avgLoss === 0 ? 100 : avgGain / avgLoss; 100 - (100 / (1 + rs))\<close>\<close>

definition rsi_value :: "real \<Rightarrow> real \<Rightarrow> real" where
  "rsi_value avgGain avgLoss =
     (let rs = (if avgLoss = 0 then 100 else avgGain / avgLoss)
      in 100 - (100 / (1 + rs)))"

text \<open>The smoothing loop from index \<open>length + 1\<close> on, over the deltas that remain.\<close>

fun rsi_loop :: "nat \<Rightarrow> real list \<Rightarrow> real \<Rightarrow> real \<Rightarrow> real option list" where
  "rsi_loop len [] avgGain avgLoss = []"
| "rsi_loop len (d # ds) avgGain avgLoss =
     (let gain = (if d > 0 then d else 0);
          loss = (if d < 0 then \<bar>d\<bar> else 0);
          avgGain' = (avgGain * (real len - 1) + gain) / real len;
          avgLoss' = (avgLoss * (real len - 1) + loss) / real len
      in Some (rsi_value avgGain' avgLoss') # rsi_loop len ds avgGain' avgLoss')"

text \<open>
  The result is aligned with \<open>closes\<close>; the callers pass \<open>length = 14\<close> (a length of
  0 would divide by zero).
\<close>

definition rsiFromCloses :: "real list \<Rightarrow> nat \<Rightarrow> real option list" where
  "rsiFromCloses closes len =
     (if length closes < len + 1 then replicate (length closes) None
      else (let deltas = deltas_of closes;
                (gains, losses) = rsi_seed (take len deltas) 0 0;
                avgGain = gains / real len;
                avgLoss = losses / real len
            in replicate len None @
               Some (rsi_value avgGain avgLoss) # rsi_loop len (drop len deltas) avgGain avgLoss))"

text \<open>
  The values of \<open>avgGain\<close> and \<open>avgLoss\<close> with which \<open>rsiFromCloses\<close> computes the
  entry of each index: \<open>None\<close> where the entry stays \<open>NaN\<close>.
\<close>

fun rsi_avgs_loop :: "nat \<Rightarrow> real list \<Rightarrow> real \<Rightarrow> real \<Rightarrow> (real \<times> real) option list" where
  "rsi_avgs_loop len [] avgGain avgLoss = []"
| "rsi_avgs_loop len (d # ds) avgGain avgLoss =
     (let gain = (if d > 0 then d else 0);
          loss = (if d < 0 then \<bar>d\<bar> else 0);
          avgGain' = (avgGain * (real len - 1) + gain) / real len;
          avgLoss' = (avgLoss * (real len - 1) + loss) / real len
      in Some (avgGain', avgLoss') # rsi_avgs_loop len ds avgGain' avgLoss')"

definition rsi_avgs :: "real list \<Rightarrow> nat \<Rightarrow> (real \<times> real) option list" where
  "rsi_avgs closes len =
     (if length closes < len + 1 then replicate (length closes) None
      else (let deltas = deltas_of closes;
                (gains, losses) = rsi_seed (take len deltas) 0 0;
                avgGain = gains / real len;
                avgLoss = losses / real len
            in replicate len None @
               Some (avgGain, avgLoss) # rsi_avgs_loop len (drop len deltas) avgGain avgLoss))"

subsection \<open>sma\<close>

text \<open>
  The loop of \<open>sma\<close> at index \<open>i\<close>, with the running sum; \<open>values[i] || 0\<close> is
  \<open>values[i]\<close>, a number.  The callers pass the periods 20 and 3.
\<close>

fun sma_loop :: "real list \<Rightarrow> nat \<Rightarrow> real list \<Rightarrow> nat \<Rightarrow> real \<Rightarrow> real option list" where
  "sma_loop vals period [] i running = []"
| "sma_loop vals period (v # rest) i running =
     (let sum1 = running + v;
          sum2 = (if i \<ge> period then sum1 - vals ! (i - period) else sum1)
      in (if int i \<ge> int period - 1 then Some (sum2 / real period) else None)
         # sma_loop vals period rest (i + 1) sum2)"

definition sma :: "real list \<Rightarrow> nat \<Rightarrow> real option list" where
  "sma vals period = sma_loop vals period vals 0 0"

subsection \<open>atrFromCandles\<close>

fun true_ranges :: "candle list \<Rightarrow> real list" where
  "true_ranges (prev # cur # rest) =
     max (high cur - low cur) (max \<bar>high cur - close prev\<bar> \<bar>low cur - close prev\<bar>)
     # true_ranges (cur # rest)"
| "true_ranges [prev] = []"
| "true_ranges [] = []"

fun atr_loop :: "nat \<Rightarrow> real list \<Rightarrow> real \<Rightarrow> real option list" where
  "atr_loop period [] atr = []"
| "atr_loop period (tr # trs) atr =
     (let atr' = (atr * (real period - 1) + tr) / real period
      in Some atr' # atr_loop period trs atr')"

definition atrFromCandles :: "candle list \<Rightarrow> nat \<Rightarrow> real option list" where
  "atrFromCandles candles period =
     (let trs = true_ranges candles
      in if length trs < period then replicate (length candles) None
         else (let atr = foldl (+) 0 (take period trs) / real period
               in replicate period None @ Some atr # atr_loop period (drop period trs) atr))"

subsection \<open>Bollinger bands, velocity and acceleration (in analyzeSymbol)\<close>

text \<open>
  The body of the Bollinger loop at index \<open>i\<close>: the standard deviation of
  \<open>closes.slice(i - BB_LENGTH + 1, i + 1)\<close> around \<open>mean = sma20[i]\<close>.
\<close>

definition bb_std :: "real list \<Rightarrow> real \<Rightarrow> nat \<Rightarrow> real" where
  "bb_std closes mean i =
     (let slice = take BB_LENGTH (drop (i + 1 - BB_LENGTH) closes);
          variance = foldl (\<lambda>variance v. variance + (v - mean) ^ 2) 0 slice / real BB_LENGTH
      in sqrt variance)"

definition bb_upper_of :: "real list \<Rightarrow> real option list \<Rightarrow> real option list" where
  "bb_upper_of closes sma20 =
     map (\<lambda>i. if i < BB_LENGTH - 1 then None
              else (case sma20 ! i of None \<Rightarrow> None
                    | Some mean \<Rightarrow> Some (mean + BB_STD * bb_std closes mean i)))
         [0..<length closes]"

definition bb_lower_of :: "real list \<Rightarrow> real option list \<Rightarrow> real option list" where
  "bb_lower_of closes sma20 =
     map (\<lambda>i. if i < BB_LENGTH - 1 then None
              else (case sma20 ! i of None \<Rightarrow> None
                    | Some mean \<Rightarrow> Some (mean - BB_STD * bb_std closes mean i)))
         [0..<length closes]"

text \<open>\<open>priceChange\<close>: filled with 0, then \<open>priceChange[i] = closes[i] - closes[i - 1]\<close> from 1 on.\<close>

definition priceChange_of :: "real list \<Rightarrow> real list" where
  "priceChange_of closes = (if closes = [] then [] else 0 # deltas_of closes)"

text \<open>\<open>aArr[i] = vArr[i] - vArr[i - 1]\<close> when neither is \<open>NaN\<close>, for \<open>i \<ge> 1\<close>.\<close>

definition aArr_of :: "real option list \<Rightarrow> real option list" where
  "aArr_of vArr =
     map (\<lambda>i. if i < 1 then None
              else (case (vArr ! i, vArr ! (i - 1)) of
                      (Some v, Some v') \<Rightarrow> Some (v - v')
                    | _ \<Rightarrow> None))
         [0..<length vArr]"

section \<open>Signal generator (analysis.js, analyzeSymbol)\<close>

record meta =
  m_rsi :: real
  m_acc :: real
  m_atr :: real
  m_lowerBB :: real
  m_upperBB :: real
  timeframe :: string

record candidate =
  symbol :: string
  side :: side
  entry :: real
  sl :: real
  tp :: real
  rr :: "real option"
  confidence :: int
  meta :: meta

text \<open>
  \<open>parseFloat(x.toFixed(d))\<close>: the decimal with \<open>d\<close> digits nearest to \<open>x\<close>, the
  larger in magnitude of two that are equally near.
\<close>

definition toFixed :: "nat \<Rightarrow> real \<Rightarrow> real" where
  "toFixed d x = (if x < 0 then - 1 else 1) * of_int \<lfloor>\<bar>x\<bar> * 10 ^ d + 1 / 2\<rfloor> / 10 ^ d"

text \<open>The entry rules.\<close>

definition entry_rules :: "real \<Rightarrow> real \<Rightarrow> real \<Rightarrow> real \<Rightarrow> real \<Rightarrow> side option" where
  "entry_rules rsi cl lowerBB upperBB accel =
     (if rsi < 30 \<and> cl < lowerBB \<and> accel > 0 then Some LONG
      else if rsi > 70 \<and> cl > upperBB \<and> accel < 0 then Some SHORT
      else None)"

text \<open>
  The rest of \<open>analyzeSymbol\<close> once a side is set.  The quotient \<open>rr\<close> has the
  denominator \<open>1.5 * |atr|\<close> and the numerator \<open>3 * |atr|\<close>: when the denominator is 0
  the quotient is \<open>0 / 0\<close>, which is \<open>NaN\<close>.  \<open>Math.round\<close> rounds a half upwards, as
  \<open>round\<close> does.
\<close>

definition build_signal ::
  "string \<Rightarrow> side \<Rightarrow> real \<Rightarrow> real \<Rightarrow> real \<Rightarrow> real \<Rightarrow> real \<Rightarrow> real \<Rightarrow> candidate" where
  "build_signal symb sd rsi cl lowerBB upperBB accel atr =
     (let ent = cl;
          stop = (if sd = LONG then ent - 1.5 * atr else ent + 1.5 * atr);
          target = (if sd = LONG then ent + 3.0 * atr else ent - 3.0 * atr);
          ratio = (if \<bar>ent - stop\<bar> = 0 then None
                   else Some (\<bar>target - ent\<bar> / \<bar>ent - stop\<bar>));
          conf = 60 + min 35 (max 0 ((\<bar>accel\<bar> / (if \<bar>atr\<bar> = 0 then 1 else \<bar>atr\<bar>)) * 10))
      in \<lparr>symbol = symb,
          side = sd,
          entry = toFixed 8 ent,
          sl = toFixed 8 stop,
          tp = toFixed 8 target,
          rr = map_option (toFixed 2) ratio,
          confidence = round (min 100 conf),
          meta = \<lparr>m_rsi = toFixed 2 rsi, m_acc = toFixed 8 accel, m_atr = toFixed 8 atr,
                  m_lowerBB = toFixed 8 lowerBB, m_upperBB = toFixed 8 upperBB,
                  timeframe = ''5m''\<rparr>\<rparr>)"

text \<open>The body of \<open>analyzeSymbol\<close> on the candles that were loaded.\<close>

definition analyze_candles :: "string \<Rightarrow> candle list \<Rightarrow> candidate option" where
  "analyze_candles symb ohlcv =
     (if length ohlcv < 30 then None
      else (let closes = map close ohlcv;
                rsiArr = rsiFromCloses closes RSI_LENGTH;
                sma20 = sma closes BB_LENGTH;
                bb_upper = bb_upper_of closes sma20;
                bb_lower = bb_lower_of closes sma20;
                vArr = sma (priceChange_of closes) V_SMA;
                aArr = aArr_of vArr;
                atrArr = atrFromCandles ohlcv ATR_LENGTH;
                i = length closes - 1
            in (case (rsiArr ! i, bb_lower ! i, bb_upper ! i, aArr ! i, atrArr ! i) of
                  (Some rsi, Some lowerBB, Some upperBB, Some accel, Some atr) \<Rightarrow>
                    (case entry_rules rsi (closes ! i) lowerBB upperBB accel of
                       None \<Rightarrow> None
                     | Some sd \<Rightarrow>
                         Some (build_signal symb sd rsi (closes ! i) lowerBB upperBB accel atr))
                | _ \<Rightarrow> None)))"

text \<open>
  \<open>analyzeSymbol\<close>: the candles are loaded inside a \<open>try\<close>, and every error gives
  \<open>null\<close>.  A series with a candle of \<open>NaN\<close> gives \<open>null\<close> as well: fewer than 30
  candles are too few, and with 30 or more the true range at that candle (at the next
  one for the first candle) is \<open>NaN\<close>, which the smoothing carries to the ATR of the
  latest index.
\<close>

definition analyzeSymbol :: "net \<Rightarrow> string \<Rightarrow> candidate option" where
  "analyzeSymbol nt symb =
     (case loadCandles nt symb ''5m'' 200 of
        Inl err \<Rightarrow> None
      | Inr ohlcv \<Rightarrow> analyze_candles symb ohlcv)"

text \<open>The filter of \<open>runAutoAnalysis\<close>: \<open>res && res.side && (res.confidence >= 60)\<close>.\<close>

definition accepted :: "candidate option \<Rightarrow> bool" where
  "accepted res = (case res of None \<Rightarrow> False | Some r \<Rightarrow> confidence r \<ge> 60)"

section \<open>Deduplication gate (index.js, isDuplicateSignal)\<close>

definition DEDUPE_WINDOW_MINUTES :: int where
  "DEDUPE_WINDOW_MINUTES = 60"

text \<open>\<open>(DEDUPE_WINDOW_MINUTES || 60) * 60 * 1000\<close>\<close>

definition windowMs :: int where
  "windowMs = (if DEDUPE_WINDOW_MINUTES = 0 then 60 else DEDUPE_WINDOW_MINUTES) * 60 * 1000"

text \<open>
  The loop over \<open>activeSignals\<close>, returning \<open>true\<close> at the first match.  The
  arguments \<open>now\<close> (the value of \<open>Date.now()\<close>) and \<open>activeSignals\<close> (the module
  variable) are explicit.
\<close>

fun isDuplicateSignal :: "int \<Rightarrow> signal list \<Rightarrow> string \<Rightarrow> side \<Rightarrow> bool" where
  "isDuplicateSignal now [] symb sd = False"
| "isDuplicateSignal now (s # activeSignals) symb sd =
     (if sig_symbol s = symb \<and> sig_side s = sd
      then (let createdMs = createdAt s in
            if now - createdMs \<le> windowMs \<and> (status s = OPEN \<or> status s = PENDING)
            then True
            else isDuplicateSignal now activeSignals symb sd)
      else isDuplicateSignal now activeSignals symb sd)"

section \<open>Signal lifecycle monitor\<close>

subsection \<open>checkSignalHit (analysis.js)\<close>

text \<open>The result object: \<open>{ status: null }\<close> or \<open>{ status, idx, candle }\<close>.\<close>

datatype hit = NoHit | Hit sig_status nat candle

text \<open>The scanning loop from index \<open>idx\<close> on, over the candles that remain.\<close>

fun scan_candles :: "side \<Rightarrow> real \<Rightarrow> real \<Rightarrow> candle list \<Rightarrow> nat \<Rightarrow> hit" where
  "scan_candles sd stop target [] idx = NoHit"
| "scan_candles sd stop target (c # candles) idx =
     (case sd of
        LONG \<Rightarrow>
          (let tpTouched = (high c \<ge> target);
               slTouched = (low c \<le> stop)
           in if tpTouched \<and> \<not> slTouched then Hit TP idx c
              else if slTouched \<and> \<not> tpTouched then Hit SL idx c
              else if tpTouched \<and> slTouched
                   then (if close c \<ge> target then Hit TP idx c else Hit SL idx c)
              else scan_candles sd stop target candles (idx + 1))
      | SHORT \<Rightarrow>
          (let tpTouched = (low c \<le> target);
               slTouched = (high c \<ge> stop)
           in if tpTouched \<and> \<not> slTouched then Hit TP idx c
              else if slTouched \<and> \<not> tpTouched then Hit SL idx c
              else if tpTouched \<and> slTouched
                   then (if close c \<le> target then Hit TP idx c else Hit SL idx c)
              else scan_candles sd stop target candles (idx + 1)))"

text \<open>
  The same loop over candles some of which are of \<open>NaN\<close>: such a candle touches
  nothing, every comparison with \<open>NaN\<close> being false.
\<close>

fun scan_nan :: "side \<Rightarrow> real \<Rightarrow> real \<Rightarrow> candle option list \<Rightarrow> nat \<Rightarrow> hit" where
  "scan_nan sd stop target [] idx = NoHit"
| "scan_nan sd stop target (None # candles) idx = scan_nan sd stop target candles (idx + 1)"
| "scan_nan sd stop target (Some c # candles) idx =
     (case scan_candles sd stop target [c] idx of
        NoHit \<Rightarrow> scan_nan sd stop target candles (idx + 1)
      | Hit st k c' \<Rightarrow> Hit st k c')"

text \<open>
  \<open>checkSignalHit\<close>: the 1-minute candles are loaded inside a \<open>try\<close>, and an error
  of the fetch gives \<open>{ status: null }\<close>.
\<close>

definition checkSignalHit ::
  "net \<Rightarrow> string \<Rightarrow> side \<Rightarrow> real \<Rightarrow> real \<Rightarrow> real \<Rightarrow> nat \<Rightarrow> hit" where
  "checkSignalHit nt symb sd ent stop target lookbackMinutes =
     (let limit = min (max lookbackMinutes 10) 1440
      in (case loadCandles nt symb ''1m'' limit of
            Inl AllSourcesFailed \<Rightarrow> NoHit
          | Inl (NotANumber candles) \<Rightarrow> scan_nan sd stop target candles 0
          | Inr candles \<Rightarrow>
              (if length candles = 0 then NoHit
               else scan_candles sd stop target candles 0)))"

subsection \<open>The tick of startMonitoringSignal (index.js)\<close>

definition MONITOR_CHECK_INTERVAL_MS :: nat where
  "MONITOR_CHECK_INTERVAL_MS = 60 * 1000"

definition MAX_MONITOR_HOURS :: nat where
  "MAX_MONITOR_HOURS = 48"

text \<open>\<open>Math.ceil((MAX_MONITOR_HOURS * 60 * 1000) / MONITOR_CHECK_INTERVAL_MS)\<close>\<close>

definition maxChecks :: nat where
  "maxChecks = nat \<lceil>real (MAX_MONITOR_HOURS * 60 * 1000) / real MONITOR_CHECK_INTERVAL_MS\<rceil>"

text \<open>The messages that a tick broadcasts: the result of a signal, or its expiry.\<close>

datatype notification = ResultMsg sig_status | ExpireMsg

definition hit_status :: "hit \<Rightarrow> sig_status option" where
  "hit_status result = (case result of NoHit \<Rightarrow> None | Hit st idx c \<Rightarrow> Some st)"

text \<open>
  One run of the interval callback at time \<open>now\<close>: the signal after it, and the
  messages sent.  Clearing the interval is \<open>monitorInterval := False\<close>.
\<close>

definition monitor_tick :: "net \<Rightarrow> int \<Rightarrow> signal \<Rightarrow> signal \<times> notification list" where
  "monitor_tick nt now s =
     (if status s \<noteq> OPEN then (s\<lparr>monitorInterval := False\<rparr>, [])
      else (let s1 = s\<lparr>monitorChecks := monitorChecks s + 1\<rparr>;
                result = checkSignalHit nt (sig_symbol s1) (sig_side s1) (sig_entry s1)
                           (sig_sl s1) (sig_tp s1) 120;
                s2 = s1\<lparr>monitorHistory := monitorHistory s1 @
                          [\<lparr>checkedAt = now, resultStatus = hit_status result\<rparr>]\<rparr>
            in if hit_status result = Some TP \<or> hit_status result = Some SL
               then (s2\<lparr>status := the (hit_status result), resolvedAt := Some now,
                        monitorInterval := False\<rparr>,
                     [ResultMsg (the (hit_status result))])
               else if monitorChecks s2 \<ge> maxChecks
               then (s2\<lparr>status := EXPIRED, resolvedAt := Some now, monitorInterval := False\<rparr>,
                     [ExpireMsg])
               else (s2, [])))"

section \<open>The resolution rule in the words of the specification\<close>

definition spec_tp_touched :: "side \<Rightarrow> real \<Rightarrow> candle \<Rightarrow> bool" where
  "spec_tp_touched sd target c =
     (case sd of LONG \<Rightarrow> high c \<ge> target | SHORT \<Rightarrow> low c \<le> target)"

definition spec_sl_touched :: "side \<Rightarrow> real \<Rightarrow> candle \<Rightarrow> bool" where
  "spec_sl_touched sd stop c =
     (case sd of LONG \<Rightarrow> low c \<le> stop | SHORT \<Rightarrow> high c \<ge> stop)"

definition spec_tie_break :: "side \<Rightarrow> real \<Rightarrow> candle \<Rightarrow> sig_status" where
  "spec_tie_break sd target c =
     (case sd of LONG \<Rightarrow> (if close c \<ge> target then TP else SL)
               | SHORT \<Rightarrow> (if close c \<le> target then TP else SL))"

text \<open>The resolution at a candle that touches a bound.\<close>

definition spec_resolution :: "side \<Rightarrow> real \<Rightarrow> real \<Rightarrow> candle \<Rightarrow> sig_status" where
  "spec_resolution sd stop target c =
     (if spec_tp_touched sd target c \<and> spec_sl_touched sd stop c then spec_tie_break sd target c
      else if spec_tp_touched sd target c then TP
      else SL)"

text \<open>
  The first candle, oldest first, that touches either bound decides, with its index;
  no such candle leaves the signal unresolved.
\<close>

definition spec_first_touch :: "side \<Rightarrow> real \<Rightarrow> real \<Rightarrow> candle list \<Rightarrow> hit" where
  "spec_first_touch sd stop target candles =
     (let k = length (takeWhile
                (\<lambda>c. \<not> spec_tp_touched sd target c \<and> \<not> spec_sl_touched sd stop c) candles)
      in if k = length candles then NoHit
         else Hit (spec_resolution sd stop target (candles ! k)) k (candles ! k))"

text \<open>
  The confidence in the words of the specification: base 60, a bonus capped at 35
  that scales \<open>|acceleration| / max(|ATR|, 1)\<close> by 10, capped at 100 and rounded.
\<close>

definition spec_confidence :: "real \<Rightarrow> real \<Rightarrow> int" where
  "spec_confidence accel atr =
     round (min 100 (60 + min 35 (max 0 (10 * \<bar>accel\<bar> / max \<bar>atr\<bar> 1))))"

section \<open>Example inputs\<close>

text \<open>A signal registered at time 0 for BTCUSDT, LONG.\<close>

definition sig0 :: signal where
  "sig0 = \<lparr>sig_symbol = ''BTCUSDT'', sig_side = LONG, sig_entry = 95, sig_sl = 92, sig_tp = 101,
           sig_rr = Some 2, sig_confidence = 62, createdAt = 0, status = OPEN,
           resolvedAt = None, monitorChecks = 0, monitorHistory = [], monitorInterval = True\<rparr>"

text \<open>A wire record for a candle, and networks that answer every request alike.\<close>

definition wire_of :: "candle \<Rightarrow> wire_item" where
  "wire_of c = ArrayItem \<lparr>a_t = t c, a_open = c_open c, a_high = high c, a_low = low c,
                          a_close = close c, a_vol = Some (vol c)\<rparr>"

definition net_binance :: "wire_item list \<Rightarrow> net" where
  "net_binance items = (\<lambda>symb interval limit src. Resp 200 (Some (RawArray items)))"

definition net_down :: net where
  "net_down = (\<lambda>symb interval limit src. Threw)"

text \<open>The candle \<open>{low: 95, high: 115, close: 112}\<close>, and the same with \<open>close: 98\<close>.\<close>

definition tie_tp :: candle where
  "tie_tp = \<lparr>t = 0, c_open = 105, high = 115, low = 95, close = 112, vol = 1\<rparr>"

definition tie_sl :: candle where
  "tie_sl = \<lparr>t = 0, c_open = 105, high = 115, low = 95, close = 98, vol = 1\<rparr>"

text \<open>A candle that touches neither 100 nor 110.\<close>

definition quiet :: candle where
  "quiet = \<lparr>t = 0, c_open = 105, high = 106, low = 104, close = 105, vol = 1\<rparr>"





text \<open>Fifteen closes that rise by 1 each: no delta is a loss.\<close>

definition rising :: "real list" where
  "rising = [1, 2, 3, 4, 5, 6, 7, 8, 9, 10, 11, 12, 13, 14, 15]"

text \<open>
  Thirty 5-minute candles: the close stays at 1 for 26 candles, falls to 0.9 for three
  candles and to 0.81 at the last one; every candle spans its close by 0.01 each way.
  The series is served by the Binance source.
\<close>

definition ex_candle :: "int \<Rightarrow> real \<Rightarrow> candle" where
  "ex_candle ts p = \<lparr>t = ts, c_open = p, high = p + 1 / 100, low = p - 1 / 100, close = p, vol = 1\<rparr>"

definition ex_closes :: "real list" where
  "ex_closes = replicate 26 1 @ [9 / 10, 9 / 10, 9 / 10, 81 / 100]"

definition ex_long :: "candle list" where
  "ex_long = map (\<lambda>(i, p). ex_candle (int i) p) (zip [0..<30] ex_closes)"

definition ex_net :: net where
  "ex_net = net_binance (map wire_of ex_long)"

section \<open>Deduplication gate: properties\<close>

text \<open>
  C9.  \<open>isDuplicateSignal(symbol, side)\<close> is true iff the active set holds a signal
  with the same symbol and the same side, whose status is OPEN or PENDING and whose
  age \<open>now - createdAt\<close> is at most the window (60 minutes, in milliseconds).  In
  particular, with an open signal of the same symbol and side in the set, a candidate
  generated \<open>window - 1\<close> minutes after it is a duplicate; and a candidate generated
  \<open>window + 1\<close> minutes or more after every signal of its symbol and side is not.
\<close>

theorem isDuplicateSignal_iff:
  "(isDuplicateSignal now sigs symb sd \<longleftrightarrow>
      (\<exists>s \<in> set sigs. sig_symbol s = symb \<and> sig_side s = sd \<and>
         (status s = OPEN \<or> status s = PENDING) \<and>
         now - createdAt s \<le> DEDUPE_WINDOW_MINUTES * 60 * 1000)) \<and>
   (s1 \<in> set sigs \<and> sig_symbol s1 = symb \<and> sig_side s1 = sd \<and> status s1 = OPEN \<longrightarrow>
      isDuplicateSignal (createdAt s1 + (DEDUPE_WINDOW_MINUTES - 1) * 60 * 1000) sigs symb sd) \<and>
   ((\<forall>s \<in> set sigs. sig_symbol s = symb \<and> sig_side s = sd \<longrightarrow>
        createdAt s + (DEDUPE_WINDOW_MINUTES + 1) * 60 * 1000 \<le> now) \<longrightarrow>
      \<not> isDuplicateSignal now sigs symb sd)"
proof -
  have w: "windowMs = DEDUPE_WINDOW_MINUTES * 60 * 1000"
    by (simp add: windowMs_def DEDUPE_WINDOW_MINUTES_def)
  have iff: "isDuplicateSignal n sigs symb sd \<longleftrightarrow>
      (\<exists>s \<in> set sigs. sig_symbol s = symb \<and> sig_side s = sd \<and>
         (status s = OPEN \<or> status s = PENDING) \<and> n - createdAt s \<le> windowMs)" for n
    by (induction sigs) (auto simp: Let_def)
  have first: "isDuplicateSignal now sigs symb sd \<longleftrightarrow>
      (\<exists>s \<in> set sigs. sig_symbol s = symb \<and> sig_side s = sd \<and>
         (status s = OPEN \<or> status s = PENDING) \<and>
         now - createdAt s \<le> DEDUPE_WINDOW_MINUTES * 60 * 1000)"
    using iff [of now] by (simp only: w)
  have second: "isDuplicateSignal (createdAt s1 + (DEDUPE_WINDOW_MINUTES - 1) * 60 * 1000) sigs symb sd"
    if "s1 \<in> set sigs \<and> sig_symbol s1 = symb \<and> sig_side s1 = sd \<and> status s1 = OPEN"
    unfolding iff using that by (auto simp: w DEDUPE_WINDOW_MINUTES_def intro!: bexI [of _ s1])
  have third: "\<not> isDuplicateSignal now sigs symb sd"
    if "\<forall>s \<in> set sigs. sig_symbol s = symb \<and> sig_side s = sd \<longrightarrow>
        createdAt s + (DEDUPE_WINDOW_MINUTES + 1) * 60 * 1000 \<le> now"
    unfolding iff using that by (fastforce simp: w DEDUPE_WINDOW_MINUTES_def)
  from first second third show ?thesis by blast
qed

theorem isDuplicateSignal_iff_witness:
  "sig0 \<in> set [sig0] \<and> sig_symbol sig0 = ''BTCUSDT'' \<and> sig_side sig0 = LONG \<and> status sig0 = OPEN \<and>
   isDuplicateSignal (59 * 60 * 1000) [sig0] ''BTCUSDT'' LONG \<and>
   createdAt sig0 + (DEDUPE_WINDOW_MINUTES + 1) * 60 * 1000 \<le> 61 * 60 * 1000 \<and>
   \<not> isDuplicateSignal (61 * 60 * 1000) [sig0] ''BTCUSDT'' LONG"
  using isDuplicateSignal_iff [of "61 * 60 * 1000" "[sig0]" "''BTCUSDT''" LONG sig0]
  by (simp add: sig0_def DEDUPE_WINDOW_MINUTES_def windowMs_def)

section \<open>Candle source adapter: the example networks\<close>

lemma sorted_sources: "sort_key priority DATA_SOURCES = DATA_SOURCES"
  by (simp add: DATA_SOURCES_def)

lemma binance_main_not_bybit: "\<not> str_includes ''Binance Main'' ''Bybit''"
  by simp

lemma map_wire_of: "map (the \<circ> binance_candle \<circ> wire_of) candles = candles"
  by (induction candles) (simp_all add: wire_of_def array_candle_def js_or0_def)

lemma is_array_item_wire_of: "list_all is_array_item (map wire_of candles)"
  by (induction candles) (simp_all add: wire_of_def)

lemma loadCandles_net_binance:
  "candles \<noteq> [] \<Longrightarrow>
   loadCandles (net_binance (map wire_of candles)) symb interval limit = Inr candles"
  using is_array_item_wire_of [of candles]
  by (simp add: loadCandles_def sorted_sources DATA_SOURCES_def net_binance_def normalize_def
      map_wire_of binance_main_not_bybit del: str_includes.simps)

lemma loadCandles_net_down: "loadCandles net_down symb interval limit = Inl AllSourcesFailed"
  by (simp add: loadCandles_def sorted_sources DATA_SOURCES_def net_down_def)

section \<open>Signal lifecycle monitor: the resolution scan\<close>

lemma scan_candles_from:
  "scan_candles sd stop target candles idx =
     (let k = length (takeWhile
                (\<lambda>c. \<not> spec_tp_touched sd target c \<and> \<not> spec_sl_touched sd stop c) candles)
      in if k = length candles then NoHit
         else Hit (spec_resolution sd stop target (candles ! k)) (idx + k) (candles ! k))"
proof (induction candles arbitrary: idx)
  case Nil
  show ?case by simp
next
  case (Cons c candles)
  show ?case
  proof (cases sd)
    case LONG
    then show ?thesis
      using Cons.IH [of "idx + 1"]
      by (auto simp: Let_def spec_tp_touched_def spec_sl_touched_def spec_resolution_def
          spec_tie_break_def)
  next
    case SHORT
    then show ?thesis
      using Cons.IH [of "idx + 1"]
      by (auto simp: Let_def spec_tp_touched_def spec_sl_touched_def spec_resolution_def
          spec_tie_break_def)
  qed
qed

lemma checkSignalHit_loaded:
  "loadCandles nt symb ''1m'' (min (max lookback 10) 1440) = Inr candles \<Longrightarrow>
   checkSignalHit nt symb sd ent stop target lookback = spec_first_touch sd stop target candles"
  using scan_candles_from [of sd stop target candles 0]
  by (auto simp: checkSignalHit_def spec_first_touch_def Let_def)

text \<open>
  C3.  On the 1-minute candles that were fetched, \<open>checkSignalHit\<close> resolves at the
  first candle, oldest first, that touches either bound (LONG: TP touched iff
  \<open>high \<ge> takeProfit\<close>, SL touched iff \<open>low \<le> stopLoss\<close>; SHORT: TP touched iff
  \<open>low \<le> takeProfit\<close>, SL touched iff \<open>high \<ge> stopLoss\<close>); one touch alone is the
  resolution, and when both bounds are touched in that candle its close decides (LONG:
  TP iff \<open>close \<ge> takeProfit\<close>, SHORT: TP iff \<open>close \<le> takeProfit\<close>, else SL); with
  no touching candle the result is unresolved.  In particular a LONG signal with
  \<open>stopLoss = 100\<close>, \<open>takeProfit = 110\<close> and a first candle
  \<open>{low: 95, high: 115, close: 112}\<close> resolves TP, and with \<open>close: 98\<close> it resolves SL.
\<close>

theorem checkSignalHit_first_touch:
  "(loadCandles nt symb ''1m'' (min (max lookback 10) 1440) = Inr candles \<longrightarrow>
      checkSignalHit nt symb sd ent stop target lookback = spec_first_touch sd stop target candles) \<and>
   (loadCandles nt symb ''1m'' (min (max lookback 10) 1440) = Inr (c # rest) \<and>
      low c = 95 \<and> high c = 115 \<and> close c = 112 \<longrightarrow>
      checkSignalHit nt symb LONG ent 100 110 lookback = Hit TP 0 c) \<and>
   (loadCandles nt symb ''1m'' (min (max lookback 10) 1440) = Inr (c # rest) \<and>
      low c = 95 \<and> high c = 115 \<and> close c = 98 \<longrightarrow>
      checkSignalHit nt symb LONG ent 100 110 lookback = Hit SL 0 c)"
proof (intro conjI impI)
  assume "loadCandles nt symb ''1m'' (min (max lookback 10) 1440) = Inr candles"
  then show "checkSignalHit nt symb sd ent stop target lookback = spec_first_touch sd stop target candles"
    by (rule checkSignalHit_loaded)
next
  assume a: "loadCandles nt symb ''1m'' (min (max lookback 10) 1440) = Inr (c # rest) \<and>
      low c = 95 \<and> high c = 115 \<and> close c = 112"
  then have "checkSignalHit nt symb LONG ent 100 110 lookback = spec_first_touch LONG 100 110 (c # rest)"
    by (simp add: checkSignalHit_loaded)
  with a show "checkSignalHit nt symb LONG ent 100 110 lookback = Hit TP 0 c"
    by (simp add: spec_first_touch_def spec_tp_touched_def spec_sl_touched_def
        spec_resolution_def spec_tie_break_def)
next
  assume a: "loadCandles nt symb ''1m'' (min (max lookback 10) 1440) = Inr (c # rest) \<and>
      low c = 95 \<and> high c = 115 \<and> close c = 98"
  then have "checkSignalHit nt symb LONG ent 100 110 lookback = spec_first_touch LONG 100 110 (c # rest)"
    by (simp add: checkSignalHit_loaded)
  with a show "checkSignalHit nt symb LONG ent 100 110 lookback = Hit SL 0 c"
    by (simp add: spec_first_touch_def spec_tp_touched_def spec_sl_touched_def
        spec_resolution_def spec_tie_break_def)
qed

theorem checkSignalHit_first_touch_witness:
  "loadCandles (net_binance (map wire_of [tie_tp])) ''BTCUSDT'' ''1m'' (min (max 120 10) 1440)
     = Inr [tie_tp] \<and>
   low tie_tp = 95 \<and> high tie_tp = 115 \<and> close tie_tp = 112 \<and>
   checkSignalHit (net_binance (map wire_of [tie_tp])) ''BTCUSDT'' LONG 105 100 110 120
     = Hit TP 0 tie_tp \<and>
   loadCandles (net_binance (map wire_of [quiet, tie_sl, tie_tp])) ''BTCUSDT'' ''1m'' (min (max 120 10) 1440)
     = Inr [quiet, tie_sl, tie_tp] \<and>
   checkSignalHit (net_binance (map wire_of [quiet, tie_sl, tie_tp])) ''BTCUSDT'' LONG 105 100 110 120
     = Hit SL 1 tie_sl"
proof -
  have l: "loadCandles (net_binance (map wire_of [tie_tp])) ''BTCUSDT'' ''1m'' (min (max 120 10) 1440)
     = Inr [tie_tp]"
    by (rule loadCandles_net_binance) simp
  have v: "low tie_tp = 95 \<and> high tie_tp = 115 \<and> close tie_tp = 112"
    by (simp add: tie_tp_def)
  have h: "checkSignalHit (net_binance (map wire_of [tie_tp])) ''BTCUSDT'' LONG 105 100 110 120
     = Hit TP 0 tie_tp"
    using l v checkSignalHit_first_touch [of "net_binance (map wire_of [tie_tp])" "''BTCUSDT''"
        120 "[tie_tp]" LONG 105 100 110 tie_tp "[]"]
    by auto
  have l3: "loadCandles (net_binance (map wire_of [quiet, tie_sl, tie_tp])) ''BTCUSDT'' ''1m''
     (min (max 120 10) 1440) = Inr [quiet, tie_sl, tie_tp]"
    by (rule loadCandles_net_binance) simp
  have s: "spec_first_touch LONG 100 110 [quiet, tie_sl, tie_tp] = Hit SL 1 tie_sl"
    by (simp add: spec_first_touch_def spec_tp_touched_def spec_sl_touched_def
        spec_resolution_def spec_tie_break_def quiet_def tie_sl_def tie_tp_def)
  have h3: "checkSignalHit (net_binance (map wire_of [quiet, tie_sl, tie_tp])) ''BTCUSDT'' LONG 105 100 110 120
     = Hit SL 1 tie_sl"
    using l3 s checkSignalHit_first_touch [of "net_binance (map wire_of [quiet, tie_sl, tie_tp])"
        "''BTCUSDT''" 120 "[quiet, tie_sl, tie_tp]" LONG 105 100 110 quiet "[tie_sl, tie_tp]"]
    by auto
  from l v h l3 h3 show ?thesis by (intro conjI) auto
qed

section \<open>Signal lifecycle monitor: a tick whose fetch fails\<close>

lemma maxChecks_eq: "maxChecks = 48"
  by (simp add: maxChecks_def MAX_MONITOR_HOURS_def MONITOR_CHECK_INTERVAL_MS_def)

lemma checkSignalHit_failed:
  "loadCandles nt symb ''1m'' 120 = Inl AllSourcesFailed \<Longrightarrow>
   checkSignalHit nt symb sd ent stop target 120 = NoHit"
  by (simp add: checkSignalHit_def)

text \<open>
  C4, as the code has it.  A tick of an OPEN signal whose candle fetch fails counts
  like a tick without a touch: \<open>monitorChecks\<close> increases by one and an entry with
  status \<open>null\<close> is appended to the history; the tick never resolves the signal to TP
  or SL.  While the increased count is below \<open>maxChecks\<close> the signal stays OPEN with
  its timer set, so the next tick tries again; when the count reaches \<open>maxChecks\<close> the
  signal becomes EXPIRED and the expiry is broadcast.
\<close>

theorem monitor_tick_fetch_failed:
  "status s = OPEN \<and> loadCandles nt (sig_symbol s) ''1m'' 120 = Inl AllSourcesFailed \<longrightarrow>
     monitor_tick nt now s =
       (if monitorChecks s + 1 \<ge> maxChecks
        then (s\<lparr>monitorChecks := monitorChecks s + 1,
                monitorHistory := monitorHistory s @ [\<lparr>checkedAt = now, resultStatus = None\<rparr>],
                status := EXPIRED, resolvedAt := Some now, monitorInterval := False\<rparr>,
              [ExpireMsg])
        else (s\<lparr>monitorChecks := monitorChecks s + 1,
                monitorHistory := monitorHistory s @ [\<lparr>checkedAt = now, resultStatus = None\<rparr>]\<rparr>,
              []))"
  by (simp add: monitor_tick_def checkSignalHit_failed hit_status_def Let_def)

theorem monitor_tick_fetch_failed_witness:
  "status sig0 = OPEN \<and> loadCandles net_down (sig_symbol sig0) ''1m'' 120 = Inl AllSourcesFailed \<and>
   monitor_tick net_down 60000 sig0 =
     (sig0\<lparr>monitorChecks := 1,
           monitorHistory := [\<lparr>checkedAt = 60000, resultStatus = None\<rparr>]\<rparr>, [])"
  using monitor_tick_fetch_failed [of sig0 net_down 60000]
  by (simp add: loadCandles_net_down maxChecks_eq) (simp add: sig0_def)

text \<open>
  C4, as the claim has it, fails: the failed tick of a fresh signal advances
  \<open>monitorChecks\<close> from 0 to 1, and the failed tick of a signal with 47 checks ends
  it as EXPIRED.
\<close>

theorem monitor_tick_fetch_failed_counterexample:
  "status sig0 = OPEN \<and>
   loadCandles net_down (sig_symbol sig0) ''1m'' 120 = Inl AllSourcesFailed \<and>
   monitorChecks sig0 = 0 \<and>
   monitorChecks (fst (monitor_tick net_down 60000 sig0)) = 1 \<and>
   status (sig0\<lparr>monitorChecks := 47\<rparr>) = OPEN \<and>
   status (fst (monitor_tick net_down 60000 (sig0\<lparr>monitorChecks := 47\<rparr>))) = EXPIRED \<and>
   snd (monitor_tick net_down 60000 (sig0\<lparr>monitorChecks := 47\<rparr>)) = [ExpireMsg]"
  by (simp add: monitor_tick_def checkSignalHit_failed loadCandles_net_down hit_status_def
      maxChecks_eq Let_def sig0_def)

section \<open>Candle source adapter: order and length of the result\<close>









section \<open>Indicator engine: the range of the RSI\<close>

lemma rsi_value_bounds:
  assumes "0 \<le> avgGain" "0 \<le> avgLoss"
  shows "0 \<le> rsi_value avgGain avgLoss \<and> rsi_value avgGain avgLoss \<le> 100"
proof -
  define rs where "rs = (if avgLoss = 0 then 100 else avgGain / avgLoss)"
  have rs: "0 \<le> rs" using assms by (simp add: rs_def)
  then have "100 / (1 + rs) \<le> 100" by (simp add: field_simps)
  moreover have "0 \<le> 100 / (1 + rs)" using rs by simp
  moreover have "rsi_value avgGain avgLoss = 100 - 100 / (1 + rs)"
    by (simp add: rsi_value_def rs_def Let_def)
  ultimately show ?thesis by simp
qed

lemma rsi_value_saturated: "rsi_value avgGain 0 = 10000 / 101"
  by (simp add: rsi_value_def)

lemma rsi_seed_nonneg:
  "0 \<le> gains \<Longrightarrow> 0 \<le> losses \<Longrightarrow> 0 \<le> fst (rsi_seed ds gains losses) \<and> 0 \<le> snd (rsi_seed ds gains losses)"
  by (induction ds arbitrary: gains losses) auto

lemma rsi_loop_avgs:
  "rsi_loop len ds avgGain avgLoss =
     map (map_option (\<lambda>(g, l). rsi_value g l)) (rsi_avgs_loop len ds avgGain avgLoss)"
  by (induction ds arbitrary: avgGain avgLoss) (simp_all add: Let_def)

lemma rsiFromCloses_avgs:
  "rsiFromCloses closes len = map (map_option (\<lambda>(g, l). rsi_value g l)) (rsi_avgs closes len)"
  by (simp add: rsiFromCloses_def rsi_avgs_def rsi_loop_avgs Let_def case_prod_beta)

lemma length_rsi_avgs_loop: "length (rsi_avgs_loop len ds g l) = length ds"
  by (induction ds arbitrary: g l) (simp_all add: Let_def)

lemma length_deltas_of: "length (deltas_of closes) = length closes - 1"
  by (induction closes rule: deltas_of.induct) simp_all

lemma length_rsi_avgs: "length (rsi_avgs closes len) = length closes"
  by (auto simp: rsi_avgs_def Let_def length_rsi_avgs_loop length_deltas_of case_prod_beta)

lemma rsi_avgs_loop_nonneg:
  "0 < len \<Longrightarrow> 0 \<le> avgGain \<Longrightarrow> 0 \<le> avgLoss \<Longrightarrow>
   Some (g, l) \<in> set (rsi_avgs_loop len ds avgGain avgLoss) \<Longrightarrow> 0 \<le> g \<and> 0 \<le> l"
proof (induction ds arbitrary: avgGain avgLoss)
  case Nil
  then show ?case by simp
next
  case (Cons d ds)
  define g' where "g' = (avgGain * (real len - 1) + (if d > 0 then d else 0)) / real len"
  define l' where "l' = (avgLoss * (real len - 1) + (if d < 0 then \<bar>d\<bar> else 0)) / real len"
  have len: "0 \<le> real len - 1" using Cons.prems(1) by simp
  have g': "0 \<le> g'" unfolding g'_def using Cons.prems(2) len by (auto intro!: divide_nonneg_nonneg add_nonneg_nonneg mult_nonneg_nonneg)
  have l': "0 \<le> l'" unfolding l'_def using Cons.prems(3) len by (auto intro!: divide_nonneg_nonneg add_nonneg_nonneg mult_nonneg_nonneg)
  from Cons.prems(4) have "(g, l) = (g', l') \<or> Some (g, l) \<in> set (rsi_avgs_loop len ds g' l')"
    by (simp add: Let_def g'_def l'_def)
  then show ?case
    using g' l' Cons.IH [OF Cons.prems(1) g' l'] by auto
qed

lemma rsi_avgs_nonneg:
  assumes "0 < len" "Some (g, l) \<in> set (rsi_avgs closes len)"
  shows "0 \<le> g \<and> 0 \<le> l"
proof (cases "length closes < len + 1")
  case True
  with assms show ?thesis by (simp add: rsi_avgs_def)
next
  case False
  define gains where "gains = fst (rsi_seed (take len (deltas_of closes)) 0 0)"
  define losses where "losses = snd (rsi_seed (take len (deltas_of closes)) 0 0)"
  have nn: "0 \<le> gains / real len" "0 \<le> losses / real len"
    using rsi_seed_nonneg [of 0 0 "take len (deltas_of closes)"]
    by (simp_all add: gains_def losses_def)
  from False assms(2) have "(g, l) = (gains / real len, losses / real len) \<or>
      Some (g, l) \<in> set (rsi_avgs_loop len (drop len (deltas_of closes)) (gains / real len) (losses / real len))"
    by (auto simp: rsi_avgs_def Let_def gains_def losses_def case_prod_beta)
  then show ?thesis
    using nn rsi_avgs_loop_nonneg [OF assms(1) nn] by auto
qed

text \<open>
  C6, as the code has it.  For every sequence of closes and every index at which the
  RSI is defined, the value lies in [0, 100].  Whenever the smoothed average loss at
  that index is zero, RS is set to 100, and the RSI is \<open>100 - 100 / 101\<close>, that is
  \<open>10000 / 101\<close> (about 99.01).
\<close>

theorem rsiFromCloses_bounded:
  "0 < len \<and> i < length closes \<longrightarrow>
     (\<forall>r. rsiFromCloses closes len ! i = Some r \<longrightarrow> 0 \<le> r \<and> r \<le> 100) \<and>
     (\<forall>avgGain. rsi_avgs closes len ! i = Some (avgGain, 0) \<longrightarrow>
        rsiFromCloses closes len ! i = Some (10000 / 101))"
proof (intro impI conjI allI)
  fix r
  assume a: "0 < len \<and> i < length closes" and r: "rsiFromCloses closes len ! i = Some r"
  from a have i: "i < length (rsi_avgs closes len)" by (simp add: length_rsi_avgs)
  with r obtain g l where gl: "rsi_avgs closes len ! i = Some (g, l)" "r = rsi_value g l"
    by (auto simp: rsiFromCloses_avgs)
  from gl(1) i have "Some (g, l) \<in> set (rsi_avgs closes len)"
    by (metis nth_mem)
  with a have "0 \<le> g \<and> 0 \<le> l" using rsi_avgs_nonneg [of len g l closes] by blast
  with gl(2) show "0 \<le> r" "r \<le> 100" using rsi_value_bounds [of g l] by simp_all
next
  fix avgGain
  assume a: "0 < len \<and> i < length closes" and z: "rsi_avgs closes len ! i = Some (avgGain, 0)"
  from a have i: "i < length (rsi_avgs closes len)" by (simp add: length_rsi_avgs)
  with z show "rsiFromCloses closes len ! i = Some (10000 / 101)"
    by (simp add: rsiFromCloses_avgs rsi_value_saturated)
qed

lemma rising_avgs: "rsi_avgs rising RSI_LENGTH ! 14 = Some (1, 0)"
  by code_simp

lemma rising_rsi: "rsiFromCloses rising RSI_LENGTH ! 14 = Some (10000 / 101)"
  by code_simp

theorem rsiFromCloses_bounded_witness:
  "0 < RSI_LENGTH \<and> 14 < length rising \<and>
   rsi_avgs rising RSI_LENGTH ! 14 = Some (1, 0) \<and>
   rsiFromCloses rising RSI_LENGTH ! 14 = Some (10000 / 101) \<and>
   (0::real) \<le> 10000 / 101 \<and> (10000::real) / 101 \<le> 100"
  using rsiFromCloses_bounded [of RSI_LENGTH 14 rising] rising_avgs
  by (simp add: RSI_LENGTH_def rising_def)

text \<open>
  C6, as the claim has it, fails: on closes that only rise the average loss is zero,
  and the RSI is \<open>10000 / 101\<close>, not 100.
\<close>

theorem rsi_saturation_counterexample:
  "rsi_avgs rising RSI_LENGTH ! 14 = Some (1, 0) \<and>
   rsiFromCloses rising RSI_LENGTH ! 14 = Some (10000 / 101) \<and>
   rsiFromCloses rising RSI_LENGTH ! 14 \<noteq> Some 100"
  using rising_avgs rising_rsi by simp

section \<open>Indicator engine: where velocity and acceleration are defined\<close>

lemma length_sma_loop: "length (sma_loop vals period rest i s) = length rest"
  by (induction rest arbitrary: i s) (simp_all add: Let_def)

lemma length_sma: "length (sma vals period) = length vals"
  by (simp add: sma_def length_sma_loop)

lemma sma_loop_defined:
  "j < length rest \<Longrightarrow>
   (sma_loop vals period rest i s ! j \<noteq> None) = (int period - 1 \<le> int (i + j))"
proof (induction rest arbitrary: i s j)
  case Nil
  then show ?case by simp
next
  case (Cons v rest)
  show ?case
  proof (cases j)
    case 0
    then show ?thesis by (simp add: Let_def)
  next
    case (Suc k)
    with Cons.prems have "k < length rest" by simp
    from Cons.IH [OF this] Suc show ?thesis by (simp add: Let_def)
  qed
qed

lemma sma_defined:
  "i < length vals \<Longrightarrow> (sma vals period ! i \<noteq> None) = (int period - 1 \<le> int i)"
  using sma_loop_defined [of i vals vals period 0 0] by (simp add: sma_def)

lemma length_priceChange_of: "length (priceChange_of closes) = length closes"
  by (cases closes) (simp_all add: priceChange_of_def length_deltas_of)

lemma aArr_of_nth:
  "i < length vArr \<Longrightarrow>
   aArr_of vArr ! i =
     (if i < 1 then None
      else (case (vArr ! i, vArr ! (i - 1)) of (Some v, Some v') \<Rightarrow> Some (v - v') | _ \<Rightarrow> None))"
  by (simp add: aArr_of_def)

lemma aArr_of_defined:
  "i < length vArr \<Longrightarrow>
   (aArr_of vArr ! i \<noteq> None) = (1 \<le> i \<and> vArr ! i \<noteq> None \<and> vArr ! (i - 1) \<noteq> None)"
  by (auto simp: aArr_of_nth split: option.splits)

text \<open>
  C5, as the code has it.  For every series of closes and every index \<open>i\<close> of it,
  the velocity at \<open>i\<close> is defined iff \<open>i \<ge> window - 1\<close> (for the window 3: from index
  2 on, the price change of index 0 being taken as 0); the acceleration at \<open>i\<close> is
  defined iff \<open>i \<ge> 1\<close> and the velocities at \<open>i\<close> and \<open>i - 1\<close> are both defined, that
  is iff \<open>i \<ge> window\<close>; every other index carries the undefined marker.
\<close>

theorem velocity_acceleration_defined:
  "i < length closes \<longrightarrow>
     ((sma (priceChange_of closes) V_SMA ! i \<noteq> None) = (V_SMA - 1 \<le> i)) \<and>
     ((aArr_of (sma (priceChange_of closes) V_SMA) ! i \<noteq> None) =
        (1 \<le> i \<and> sma (priceChange_of closes) V_SMA ! i \<noteq> None \<and>
         sma (priceChange_of closes) V_SMA ! (i - 1) \<noteq> None)) \<and>
     ((aArr_of (sma (priceChange_of closes) V_SMA) ! i \<noteq> None) = (V_SMA \<le> i))"
proof
  assume i: "i < length closes"
  let ?v = "sma (priceChange_of closes) V_SMA"
  have lv: "length ?v = length closes" by (simp add: length_sma length_priceChange_of)
  have v: "(?v ! k \<noteq> None) = (V_SMA - 1 \<le> k)" if "k < length closes" for k
    using sma_defined [of k "priceChange_of closes" V_SMA] that
    by (auto simp: length_priceChange_of V_SMA_def)
  have a: "(aArr_of ?v ! i \<noteq> None) = (1 \<le> i \<and> ?v ! i \<noteq> None \<and> ?v ! (i - 1) \<noteq> None)"
    using aArr_of_defined [of i ?v] i lv by simp
  have "(aArr_of ?v ! i \<noteq> None) = (V_SMA \<le> i)"
    unfolding a using v [of i] v [of "i - 1"] i by (auto simp: V_SMA_def)
  with a v [OF i] show "((?v ! i \<noteq> None) = (V_SMA - 1 \<le> i)) \<and>
     ((aArr_of ?v ! i \<noteq> None) = (1 \<le> i \<and> ?v ! i \<noteq> None \<and> ?v ! (i - 1) \<noteq> None)) \<and>
     ((aArr_of ?v ! i \<noteq> None) = (V_SMA \<le> i))"
    by blast
qed

lemma ex_velocity: "sma (priceChange_of [1, 2, 4, 8]) V_SMA = [None, None, Some 1, Some (7 / 3)]"
  by code_simp

lemma ex_acceleration:
  "aArr_of (sma (priceChange_of [1, 2, 4, 8]) V_SMA) = [None, None, None, Some (4 / 3)]"
  by code_simp

theorem velocity_acceleration_defined_witness:
  "(3::nat) < length [1, 2, 4, 8 :: real] \<and>
   sma (priceChange_of [1, 2, 4, 8]) V_SMA ! 3 = Some (7 / 3) \<and>
   aArr_of (sma (priceChange_of [1, 2, 4, 8]) V_SMA) ! 3 = Some (4 / 3) \<and>
   V_SMA \<le> 3"
proof -
  have v: "sma (priceChange_of [1, 2, 4, 8]) V_SMA ! 3 = Some (7 / 3)"
    by (simp add: ex_velocity)
  have a: "aArr_of (sma (priceChange_of [1, 2, 4, 8]) V_SMA) ! 3 = Some (4 / 3)"
    by (simp add: ex_acceleration)
  have w: "V_SMA \<le> 3"
    by (simp add: V_SMA_def)
  show ?thesis
    using velocity_acceleration_defined [of 3 "[1, 2, 4, 8]"] v a w by simp
qed

text \<open>
  C5, as the claim has it, fails: with three closes (less than the window plus one) the
  velocity at index 2 is the number 1, the mean of the placeholder 0 and two changes.
\<close>

theorem velocity_window_counterexample:
  "priceChange_of [1, 2, 4] = [0, 1, 2] \<and>
   sma (priceChange_of [1, 2, 4]) V_SMA ! 2 = Some 1 \<and>
   (2::nat) < V_SMA \<and>
   length [1, 2, 4 :: real] < V_SMA + 1"
  by code_simp

section \<open>Signal generator: the candidate that is built\<close>

lemma analyze_candles_snapshot:
  assumes "30 \<le> length ohlcv"
    and "rsiFromCloses (map close ohlcv) RSI_LENGTH ! (length ohlcv - 1) = Some rsi"
    and "bb_lower_of (map close ohlcv) (sma (map close ohlcv) BB_LENGTH) ! (length ohlcv - 1) = Some lowerBB"
    and "bb_upper_of (map close ohlcv) (sma (map close ohlcv) BB_LENGTH) ! (length ohlcv - 1) = Some upperBB"
    and "aArr_of (sma (priceChange_of (map close ohlcv)) V_SMA) ! (length ohlcv - 1) = Some accel"
    and "atrFromCandles ohlcv ATR_LENGTH ! (length ohlcv - 1) = Some atr"
  shows "analyze_candles symb ohlcv =
     (case entry_rules rsi (close (ohlcv ! (length ohlcv - 1))) lowerBB upperBB accel of
        None \<Rightarrow> None
      | Some sd \<Rightarrow> Some (build_signal symb sd rsi (close (ohlcv ! (length ohlcv - 1)))
                           lowerBB upperBB accel atr))"
proof -
  have "length ohlcv - 1 < length ohlcv" using assms(1) by simp
  then have "map close ohlcv ! (length ohlcv - 1) = close (ohlcv ! (length ohlcv - 1))"
    by (rule nth_map)
  with assms show ?thesis
    by (auto simp: analyze_candles_def Let_def split: option.splits)
qed

lemma analyze_candles_Some:
  "analyze_candles symb ohlcv = Some r \<Longrightarrow>
   \<exists>sd rsi cl lowerBB upperBB accel atr. r = build_signal symb sd rsi cl lowerBB upperBB accel atr"
  by (auto simp: analyze_candles_def Let_def split: if_splits option.splits) blast

lemma analyzeSymbol_loaded:
  "loadCandles nt symb ''5m'' 200 = Inr ohlcv \<Longrightarrow> analyzeSymbol nt symb = analyze_candles symb ohlcv"
  by (simp add: analyzeSymbol_def)

lemma analyzeSymbol_Some:
  "analyzeSymbol nt symb = Some r \<Longrightarrow>
   \<exists>sd rsi cl lowerBB upperBB accel atr. r = build_signal symb sd rsi cl lowerBB upperBB accel atr"
  by (auto simp: analyzeSymbol_def dest: analyze_candles_Some split: sum.splits)

lemma side_build_signal [simp]: "side (build_signal symb sd rsi cl lowerBB upperBB accel atr) = sd"
  by (simp add: build_signal_def Let_def)




lemma toFixed_numeral2 [simp]: "toFixed 2 2 = 2"
  by (simp add: toFixed_def)


lemma confidence_build_signal:
  "confidence (build_signal symb sd rsi cl lowerBB upperBB accel atr) =
     round (min 100 (60 + min 35 (max 0 ((\<bar>accel\<bar> / (if \<bar>atr\<bar> = 0 then 1 else \<bar>atr\<bar>)) * 10))))"
  by (simp add: build_signal_def Let_def)

lemma confidence_build_signal_bounds:
  "60 \<le> confidence (build_signal symb sd rsi cl lowerBB upperBB accel atr) \<and>
   confidence (build_signal symb sd rsi cl lowerBB upperBB accel atr) \<le> 95"
proof -
  define x where "x = (\<bar>accel\<bar> / (if \<bar>atr\<bar> = 0 then 1 else \<bar>atr\<bar>)) * 10"
  define conf where "conf = 60 + min 35 (max 0 x)"
  have c: "60 \<le> conf" "conf \<le> 95" by (simp_all add: conf_def)
  then have m: "min 100 conf = conf" by simp
  have e: "confidence (build_signal symb sd rsi cl lowerBB upperBB accel atr) = round (min 100 conf)"
    unfolding conf_def x_def by (rule confidence_build_signal)
  have "round (60::real) \<le> round conf" "round conf \<le> round (95::real)"
    using c by (simp_all only: round_mono)
  then have "60 \<le> round conf" "round conf \<le> 95" by simp_all
  then show ?thesis unfolding e m by simp
qed


section \<open>Signal generator: the example series\<close>

lemma ex_length: "length ex_long = 30"
  by code_simp

lemma ex_map_close: "map close ex_long = ex_closes"
  by code_simp

lemma ex_last_close: "close (ex_long ! 29) = 81 / 100"
  by code_simp

lemma ex_rsi: "rsiFromCloses ex_closes RSI_LENGTH ! 29 = Some 0"
  by code_simp

lemma ex_sma20: "sma ex_closes BB_LENGTH ! 29 = Some (1951 / 2000)"
  by code_simp

lemma ex_variance:
  "foldl (\<lambda>variance v. variance + (v - 1951 / 2000) ^ 2) 0
          (take BB_LENGTH (drop (29 + 1 - BB_LENGTH) ex_closes)) / real BB_LENGTH
   = 10819 / 4000000"
  by code_simp

lemma ex_std: "bb_std ex_closes (1951 / 2000) 29 = sqrt (10819 / 4000000)"
  by (simp only: bb_std_def Let_def ex_variance)

lemma ex_closes_length: "length ex_closes = 30"
  by code_simp

lemma ex_lower:
  "bb_lower_of ex_closes (sma ex_closes BB_LENGTH) ! 29 = Some (1951 / 2000 - 2 * sqrt (10819 / 4000000))"
  by (simp add: bb_lower_of_def ex_closes_length ex_sma20 ex_std BB_STD_def) (simp add: BB_LENGTH_def)

lemma ex_upper:
  "bb_upper_of ex_closes (sma ex_closes BB_LENGTH) ! 29 = Some (1951 / 2000 + 2 * sqrt (10819 / 4000000))"
  by (simp add: bb_upper_of_def ex_closes_length ex_sma20 ex_std BB_STD_def) (simp add: BB_LENGTH_def)

lemma ex_acc: "aArr_of (sma (priceChange_of ex_closes) V_SMA) ! 29 = Some (1 / 300)"
  by code_simp

lemma ex_atr: "atrFromCandles ex_long ATR_LENGTH ! 29 = Some (118557 / 3841600)"
  by code_simp

lemma ex_below_band: "(81::real) / 100 < 1951 / 2000 - 2 * sqrt (10819 / 4000000)"
proof -
  have "sqrt (10819 / 4000000) < 331 / 4000"
    by (rule real_less_lsqrt) (simp_all add: power2_eq_square)
  then show ?thesis by simp
qed

lemma ex_entry_rules:
  "entry_rules 0 (81 / 100) (1951 / 2000 - 2 * sqrt (10819 / 4000000))
     (1951 / 2000 + 2 * sqrt (10819 / 4000000)) (1 / 300) = Some LONG"
  using ex_below_band by (simp add: entry_rules_def)

lemma ex_loaded: "loadCandles ex_net ''BTCUSDT'' ''5m'' 200 = Inr ex_long"
  unfolding ex_net_def
  by (rule loadCandles_net_binance) (use ex_length in auto)

lemma ex_analyze:
  "analyzeSymbol ex_net ''BTCUSDT'' =
     Some (build_signal ''BTCUSDT'' LONG 0 (81 / 100) (1951 / 2000 - 2 * sqrt (10819 / 4000000))
        (1951 / 2000 + 2 * sqrt (10819 / 4000000)) (1 / 300) (118557 / 3841600))"
proof -
  have "analyze_candles ''BTCUSDT'' ex_long =
     (case entry_rules 0 (close (ex_long ! (length ex_long - 1)))
             (1951 / 2000 - 2 * sqrt (10819 / 4000000))
             (1951 / 2000 + 2 * sqrt (10819 / 4000000)) (1 / 300) of
        None \<Rightarrow> None
      | Some sd \<Rightarrow> Some (build_signal ''BTCUSDT'' sd 0 (close (ex_long ! (length ex_long - 1)))
           (1951 / 2000 - 2 * sqrt (10819 / 4000000))
           (1951 / 2000 + 2 * sqrt (10819 / 4000000)) (1 / 300) (118557 / 3841600)))"
    by (rule analyze_candles_snapshot)
      (simp_all add: ex_length ex_map_close ex_rsi ex_lower ex_upper ex_acc ex_atr)
  then show ?thesis
    by (simp add: analyzeSymbol_loaded [OF ex_loaded] ex_length ex_last_close ex_entry_rules)
qed

lemma ex_confidence: "map_option confidence (analyzeSymbol ex_net ''BTCUSDT'') = Some 61"
  by (simp add: ex_analyze confidence_build_signal round_def)

lemma ex_spec_confidence: "spec_confidence (1 / 300) (118557 / 3841600) = 60"
  by (simp add: spec_confidence_def round_def)

section \<open>Signal generator: the entry rules\<close>

lemma entry_rules_cases:
  "(entry_rules rsi cl lowerBB upperBB accel = Some LONG) = (rsi < 30 \<and> cl < lowerBB \<and> accel > 0)"
  "(entry_rules rsi cl lowerBB upperBB accel = Some SHORT) = (rsi > 70 \<and> cl > upperBB \<and> accel < 0)"
  "(entry_rules rsi cl lowerBB upperBB accel = None) =
     (\<not> (rsi < 30 \<and> cl < lowerBB \<and> accel > 0) \<and> \<not> (rsi > 70 \<and> cl > upperBB \<and> accel < 0))"
  by (auto simp: entry_rules_def)

lemma analyzeSymbol_snapshot:
  assumes "loadCandles nt symb ''5m'' 200 = Inr ohlcv" "30 \<le> length ohlcv"
    and "rsiFromCloses (map close ohlcv) RSI_LENGTH ! (length ohlcv - 1) = Some rsi"
    and "bb_lower_of (map close ohlcv) (sma (map close ohlcv) BB_LENGTH) ! (length ohlcv - 1) = Some lowerBB"
    and "bb_upper_of (map close ohlcv) (sma (map close ohlcv) BB_LENGTH) ! (length ohlcv - 1) = Some upperBB"
    and "aArr_of (sma (priceChange_of (map close ohlcv)) V_SMA) ! (length ohlcv - 1) = Some accel"
    and "atrFromCandles ohlcv ATR_LENGTH ! (length ohlcv - 1) = Some atr"
    and "cl = close (ohlcv ! (length ohlcv - 1))"
  shows "analyzeSymbol nt symb =
     (case entry_rules rsi cl lowerBB upperBB accel of
        None \<Rightarrow> None
      | Some sd \<Rightarrow> Some (build_signal symb sd rsi cl lowerBB upperBB accel atr))"
  using analyze_candles_snapshot [OF assms(2-7), of symb] assms(1,8)
  by (auto simp: analyzeSymbol_loaded split: option.splits)

text \<open>
  C1.  For every candle series of length at least 30 that was loaded and whose RSI,
  Bollinger bounds, acceleration and ATR are defined at the latest index,
  \<open>analyzeSymbol\<close> returns the side LONG iff \<open>rsi < 30\<close>, \<open>close < lowerBand\<close> and
  \<open>acceleration > 0\<close> at the latest index, the side SHORT iff \<open>rsi > 70\<close>,
  \<open>close > upperBand\<close> and \<open>acceleration < 0\<close>, and nothing otherwise.  When a side
  is returned, replacing any single one of the three values by one that violates its
  threshold, the other two unchanged, makes the rule return nothing.
\<close>

theorem analyzeSymbol_side:
  assumes "loadCandles nt symb ''5m'' 200 = Inr ohlcv" "30 \<le> length ohlcv"
    and "rsiFromCloses (map close ohlcv) RSI_LENGTH ! (length ohlcv - 1) = Some rsi"
    and "bb_lower_of (map close ohlcv) (sma (map close ohlcv) BB_LENGTH) ! (length ohlcv - 1) = Some lowerBB"
    and "bb_upper_of (map close ohlcv) (sma (map close ohlcv) BB_LENGTH) ! (length ohlcv - 1) = Some upperBB"
    and "aArr_of (sma (priceChange_of (map close ohlcv)) V_SMA) ! (length ohlcv - 1) = Some accel"
    and "atrFromCandles ohlcv ATR_LENGTH ! (length ohlcv - 1) = Some atr"
    and "cl = close (ohlcv ! (length ohlcv - 1))"
  shows "map_option side (analyzeSymbol nt symb) = entry_rules rsi cl lowerBB upperBB accel \<and>
    ((map_option side (analyzeSymbol nt symb) = Some LONG) = (rsi < 30 \<and> cl < lowerBB \<and> accel > 0)) \<and>
    ((map_option side (analyzeSymbol nt symb) = Some SHORT) = (rsi > 70 \<and> cl > upperBB \<and> accel < 0)) \<and>
    ((analyzeSymbol nt symb = None) =
       (\<not> (rsi < 30 \<and> cl < lowerBB \<and> accel > 0) \<and> \<not> (rsi > 70 \<and> cl > upperBB \<and> accel < 0))) \<and>
    (entry_rules rsi cl lowerBB upperBB accel = Some LONG \<longrightarrow>
       (\<not> rsi' < 30 \<longrightarrow> entry_rules rsi' cl lowerBB upperBB accel = None) \<and>
       (\<not> cl' < lowerBB \<longrightarrow> entry_rules rsi cl' lowerBB upperBB accel = None) \<and>
       (\<not> accel' > 0 \<longrightarrow> entry_rules rsi cl lowerBB upperBB accel' = None)) \<and>
    (entry_rules rsi cl lowerBB upperBB accel = Some SHORT \<longrightarrow>
       (\<not> rsi' > 70 \<longrightarrow> entry_rules rsi' cl lowerBB upperBB accel = None) \<and>
       (\<not> cl' > upperBB \<longrightarrow> entry_rules rsi cl' lowerBB upperBB accel = None) \<and>
       (\<not> accel' < 0 \<longrightarrow> entry_rules rsi cl lowerBB upperBB accel' = None))"
proof -
  have s: "map_option side (analyzeSymbol nt symb) = entry_rules rsi cl lowerBB upperBB accel"
    by (simp add: analyzeSymbol_snapshot [OF assms] split: option.splits)
  have n: "(analyzeSymbol nt symb = None) = (entry_rules rsi cl lowerBB upperBB accel = None)"
    by (simp add: analyzeSymbol_snapshot [OF assms] split: option.splits)
  have m1: "entry_rules rsi cl lowerBB upperBB accel = Some LONG \<longrightarrow>
       (\<not> rsi' < 30 \<longrightarrow> entry_rules rsi' cl lowerBB upperBB accel = None) \<and>
       (\<not> cl' < lowerBB \<longrightarrow> entry_rules rsi cl' lowerBB upperBB accel = None) \<and>
       (\<not> accel' > 0 \<longrightarrow> entry_rules rsi cl lowerBB upperBB accel' = None)"
    by (auto simp: entry_rules_def split: if_splits)
  have m2: "entry_rules rsi cl lowerBB upperBB accel = Some SHORT \<longrightarrow>
       (\<not> rsi' > 70 \<longrightarrow> entry_rules rsi' cl lowerBB upperBB accel = None) \<and>
       (\<not> cl' > upperBB \<longrightarrow> entry_rules rsi cl' lowerBB upperBB accel = None) \<and>
       (\<not> accel' < 0 \<longrightarrow> entry_rules rsi cl lowerBB upperBB accel' = None)"
    by (auto simp: entry_rules_def split: if_splits)
  show ?thesis
    unfolding s n entry_rules_cases using m1 m2 by (simp add: entry_rules_cases)
qed

theorem analyzeSymbol_side_witness:
  "loadCandles ex_net ''BTCUSDT'' ''5m'' 200 = Inr ex_long \<and> 30 \<le> length ex_long \<and>
   rsiFromCloses (map close ex_long) RSI_LENGTH ! (length ex_long - 1) = Some 0 \<and>
   aArr_of (sma (priceChange_of (map close ex_long)) V_SMA) ! (length ex_long - 1) = Some (1 / 300) \<and>
   atrFromCandles ex_long ATR_LENGTH ! (length ex_long - 1) = Some (118557 / 3841600) \<and>
   close (ex_long ! (length ex_long - 1)) = 81 / 100 \<and>
   (81::real) / 100 < 1951 / 2000 - 2 * sqrt (10819 / 4000000) \<and>
   map_option side (analyzeSymbol ex_net ''BTCUSDT'') = Some LONG \<and>
   entry_rules 30 (81 / 100) (1951 / 2000 - 2 * sqrt (10819 / 4000000))
     (1951 / 2000 + 2 * sqrt (10819 / 4000000)) (1 / 300) = None"
proof -
  have h: "rsiFromCloses (map close ex_long) RSI_LENGTH ! (length ex_long - 1) = Some 0"
    "bb_lower_of (map close ex_long) (sma (map close ex_long) BB_LENGTH) ! (length ex_long - 1)
       = Some (1951 / 2000 - 2 * sqrt (10819 / 4000000))"
    "bb_upper_of (map close ex_long) (sma (map close ex_long) BB_LENGTH) ! (length ex_long - 1)
       = Some (1951 / 2000 + 2 * sqrt (10819 / 4000000))"
    "aArr_of (sma (priceChange_of (map close ex_long)) V_SMA) ! (length ex_long - 1) = Some (1 / 300)"
    "atrFromCandles ex_long ATR_LENGTH ! (length ex_long - 1) = Some (118557 / 3841600)"
    "81 / 100 = close (ex_long ! (length ex_long - 1))"
    by (simp_all add: ex_length ex_map_close ex_rsi ex_lower ex_upper ex_acc ex_atr ex_last_close)
  have l: "30 \<le> length ex_long" by (simp add: ex_length)
  note T = analyzeSymbol_side [OF ex_loaded l h, of 30 0 0]
  from T have sd: "map_option side (analyzeSymbol ex_net ''BTCUSDT'') = Some LONG"
    by (simp only: ex_entry_rules)
  from T have mut: "entry_rules 30 (81 / 100) (1951 / 2000 - 2 * sqrt (10819 / 4000000))
     (1951 / 2000 + 2 * sqrt (10819 / 4000000)) (1 / 300) = None"
    using ex_entry_rules by blast
  have c: "close (ex_long ! (length ex_long - 1)) = 81 / 100"
    by (simp add: ex_length ex_last_close)
  from ex_loaded l h(1,4,5) c ex_below_band sd mut show ?thesis
    by (intro conjI)
qed

section \<open>Signal generator: entry, stop, target and risk-reward\<close>




section \<open>Signal generator: the confidence\<close>

text \<open>
  C7, as the code has it.  Whenever \<open>analyzeSymbol\<close> returns a candidate for a series
  as in C1, its confidence is the base 60 plus a bonus of at most 35, which is 10 times
  \<open>|acceleration|\<close> divided by \<open>|ATR|\<close>, or by 1 when the ATR is zero; the sum is capped
  at 100 and rounded to an integer.
\<close>

theorem analyzeSymbol_confidence:
  assumes "loadCandles nt symb ''5m'' 200 = Inr ohlcv" "30 \<le> length ohlcv"
    and "rsiFromCloses (map close ohlcv) RSI_LENGTH ! (length ohlcv - 1) = Some rsi"
    and "bb_lower_of (map close ohlcv) (sma (map close ohlcv) BB_LENGTH) ! (length ohlcv - 1) = Some lowerBB"
    and "bb_upper_of (map close ohlcv) (sma (map close ohlcv) BB_LENGTH) ! (length ohlcv - 1) = Some upperBB"
    and "aArr_of (sma (priceChange_of (map close ohlcv)) V_SMA) ! (length ohlcv - 1) = Some accel"
    and "atrFromCandles ohlcv ATR_LENGTH ! (length ohlcv - 1) = Some atr"
    and "analyzeSymbol nt symb = Some r"
  shows "confidence r =
     round (min 100 (60 + min 35 (max 0 (10 * \<bar>accel\<bar> / (if \<bar>atr\<bar> = 0 then 1 else \<bar>atr\<bar>)))))"
proof -
  from analyzeSymbol_snapshot [OF assms(1-7) refl] assms(8)
  obtain sd where r: "r = build_signal symb sd rsi (close (ohlcv ! (length ohlcv - 1)))
      lowerBB upperBB accel atr"
    by (auto split: option.splits)
  have "\<bar>accel\<bar> / (if \<bar>atr\<bar> = 0 then 1 else \<bar>atr\<bar>) * 10
      = 10 * \<bar>accel\<bar> / (if \<bar>atr\<bar> = 0 then 1 else \<bar>atr\<bar>)"
    by simp
  then show ?thesis
    unfolding r confidence_build_signal by (simp only:)
qed

theorem analyzeSymbol_confidence_witness:
  "loadCandles ex_net ''BTCUSDT'' ''5m'' 200 = Inr ex_long \<and> 30 \<le> length ex_long \<and>
   aArr_of (sma (priceChange_of (map close ex_long)) V_SMA) ! (length ex_long - 1) = Some (1 / 300) \<and>
   atrFromCandles ex_long ATR_LENGTH ! (length ex_long - 1) = Some (118557 / 3841600) \<and>
   map_option confidence (analyzeSymbol ex_net ''BTCUSDT'') = Some 61"
proof -
  have h: "rsiFromCloses (map close ex_long) RSI_LENGTH ! (length ex_long - 1) = Some 0"
    "bb_lower_of (map close ex_long) (sma (map close ex_long) BB_LENGTH) ! (length ex_long - 1)
       = Some (1951 / 2000 - 2 * sqrt (10819 / 4000000))"
    "bb_upper_of (map close ex_long) (sma (map close ex_long) BB_LENGTH) ! (length ex_long - 1)
       = Some (1951 / 2000 + 2 * sqrt (10819 / 4000000))"
    "aArr_of (sma (priceChange_of (map close ex_long)) V_SMA) ! (length ex_long - 1) = Some (1 / 300)"
    "atrFromCandles ex_long ATR_LENGTH ! (length ex_long - 1) = Some (118557 / 3841600)"
    by (simp_all add: ex_length ex_map_close ex_rsi ex_lower ex_upper ex_acc ex_atr)
  have l: "30 \<le> length ex_long" by (simp add: ex_length)
  obtain r where a: "analyzeSymbol ex_net ''BTCUSDT'' = Some r"
    using ex_analyze by blast
  from analyzeSymbol_confidence [OF ex_loaded l h a] have "confidence r = 61"
    by (simp add: round_def)
  with a ex_loaded l h(4,5) show ?thesis by simp
qed

text \<open>
  C7, as the claim has it, fails: on the example series \<open>|ATR|\<close> is below 1, the code
  divides by it and returns 61, and the formula with \<open>max(|ATR|, 1)\<close> gives 60.
\<close>

theorem analyzeSymbol_confidence_counterexample:
  "aArr_of (sma (priceChange_of (map close ex_long)) V_SMA) ! 29 = Some (1 / 300) \<and>
   atrFromCandles ex_long ATR_LENGTH ! 29 = Some (118557 / 3841600) \<and>
   map_option confidence (analyzeSymbol ex_net ''BTCUSDT'') = Some 61 \<and>
   spec_confidence (1 / 300) (118557 / 3841600) = 60"
  by (simp add: ex_map_close ex_acc ex_atr ex_confidence ex_spec_confidence)

text \<open>
  C10.  Every candidate that \<open>analyzeSymbol\<close> returns carries an integer confidence
  between 60 and 95 inclusive; so the filter \<open>confidence >= 60\<close> of the orchestrator
  accepts every candidate that is returned.
\<close>

theorem analyzeSymbol_accepted:
  "analyzeSymbol nt symb = Some r \<longrightarrow>
     60 \<le> confidence r \<and> confidence r \<le> 95 \<and> accepted (analyzeSymbol nt symb)"
proof
  assume a: "analyzeSymbol nt symb = Some r"
  from analyzeSymbol_Some [OF a] obtain sd rsi cl lowerBB upperBB accel atr
    where r: "r = build_signal symb sd rsi cl lowerBB upperBB accel atr"
    by blast
  have b: "60 \<le> confidence r \<and> confidence r \<le> 95"
    unfolding r by (rule confidence_build_signal_bounds)
  with a show "60 \<le> confidence r \<and> confidence r \<le> 95 \<and> accepted (analyzeSymbol nt symb)"
    by (simp add: accepted_def)
qed

theorem analyzeSymbol_accepted_witness:
  "map_option confidence (analyzeSymbol ex_net ''BTCUSDT'') = Some 61 \<and>
   accepted (analyzeSymbol ex_net ''BTCUSDT'')"
proof -
  obtain r where a: "analyzeSymbol ex_net ''BTCUSDT'' = Some r"
    using ex_analyze by blast
  from analyzeSymbol_accepted [of ex_net "''BTCUSDT''" r] a
  have "accepted (analyzeSymbol ex_net ''BTCUSDT'')" by blast
  with ex_confidence show ?thesis by simp
qed

end
